theory Spec2Isabelle
  imports Complex_Main
begin

section \<open>Side by Side: survey parsing and comparison\<close>

text \<open>
  A shallow embedding of \<^verbatim>\<open>side_by_side.py\<close>: the header standardizer
  (\<^verbatim>\<open>standardize_headers\<close>), the three layout strategies and their cascade
  (\<^verbatim>\<open>parse_survey_file\<close>) and the comparison loop of \<^verbatim>\<open>update_tables\<close>.

  The decoded sheet \<^verbatim>\<open>df\<close> (the result of \<^verbatim>\<open>pd.read_csv\<close> or
  \<^verbatim>\<open>pd.read_excel\<close> with \<^verbatim>\<open>header=None\<close>) is a list of rows of cells.
  A cell is blank (pandas NaN), a number or a text. Numbers are exact rationals together
  with the two infinities; the binary rounding of float64, its overflow and the sign of
  zero are not modelled. Python exceptions are values of the type \<open>error\<close>.
\<close>

subsection \<open>Characters and strings\<close>

text \<open>\<^verbatim>\<open>str.lower()\<close> on the ASCII letters.\<close>

definition lower_char :: "char \<Rightarrow> char" where
  "lower_char c =
     (let n = (of_char c :: nat) in if 65 \<le> n \<and> n \<le> 90 then char_of (n + 32) else c)"

definition lower :: "string \<Rightarrow> string" where
  "lower s = map lower_char s"

text \<open>The ASCII characters that \<^verbatim>\<open>str.strip()\<close> removes.\<close>

definition is_space :: "char \<Rightarrow> bool" where
  "is_space c = (let n = (of_char c :: nat) in (9 \<le> n \<and> n \<le> 13) \<or> (28 \<le> n \<and> n \<le> 32))"

definition strip :: "string \<Rightarrow> string" where
  "strip s = rev (dropWhile is_space (rev (dropWhile is_space s)))"

subsection \<open>Numbers, their parsing and their formatting\<close>

datatype num = Fin rat | PInf | NInf

definition is_digit :: "char \<Rightarrow> bool" where
  "is_digit c = (c \<in> set ''0123456789'')"

definition digit_val :: "char \<Rightarrow> int" where
  "digit_val c = of_char c - 48"

definition digits_val :: "string \<Rightarrow> int" where
  "digits_val ds = foldl (\<lambda>a c. 10 * a + digit_val c) 0 ds"

definition digit_char :: "int \<Rightarrow> char" where
  "digit_char d = ''0123456789'' ! nat d"

text \<open>The decimal digits of a non-negative integer.\<close>

function show_int :: "int \<Rightarrow> string" where
  "show_int n = (if n < 10 then [digit_char n] else show_int (n div 10) @ [digit_char (n mod 10)])"
  by pat_completeness auto
termination
  by (relation "measure nat") auto

text \<open>The white space that the number scanner of pandas skips (C \<^verbatim>\<open>isspace\<close>).\<close>

definition is_cspace :: "char \<Rightarrow> bool" where
  "is_cspace c = (let n = (of_char c :: nat) in (9 \<le> n \<and> n \<le> 13) \<or> n = 32)"

text \<open>
  The exponent part of a decimal literal: nothing, or \<^verbatim>\<open>e\<close>/\<^verbatim>\<open>E\<close>, an optional
  sign and at least one digit, up to the end of the text.
\<close>

definition exponent :: "string \<Rightarrow> int option" where
  "exponent r =
     (case r of
        [] \<Rightarrow> Some 0
      | c # t \<Rightarrow>
          if c = CHR ''e'' \<or> c = CHR ''E'' then
            (let (neg, u) = (case t of
                               [] \<Rightarrow> (False, t)
                             | d # v \<Rightarrow> if d = CHR ''-'' then (True, v)
                                        else if d = CHR ''+'' then (False, v) else (False, t))
             in if u \<noteq> [] \<and> list_all is_digit u
                then Some (if neg then - digits_val u else digits_val u)
                else None)
          else None)"

definition scale10 :: "rat \<Rightarrow> int \<Rightarrow> rat" where
  "scale10 m e = (if 0 \<le> e then m * 10 ^ nat e else m / 10 ^ nat (- e))"

text \<open>
  The decimal literals that \<^verbatim>\<open>pd.to_numeric\<close> reads from a text: blanks, an
  optional sign, digits with an optional fraction (at least one digit in all), an optional
  exponent, blanks.
\<close>

definition xstrtod :: "string \<Rightarrow> rat option" where
  "xstrtod s =
     (let t = dropWhile is_cspace s;
          (neg, u) = (case t of
                        [] \<Rightarrow> (False, t)
                      | d # v \<Rightarrow> if d = CHR ''-'' then (True, v)
                                 else if d = CHR ''+'' then (False, v) else (False, t));
          ip = takeWhile is_digit u;
          r1 = dropWhile is_digit u;
          (fp, r2) = (case r1 of
                        [] \<Rightarrow> ([], r1)
                      | d # v \<Rightarrow> if d = CHR ''.'' then (takeWhile is_digit v, dropWhile is_digit v)
                                 else ([], r1));
          r3 = rev (dropWhile is_cspace (rev r2))
      in if ip = [] \<and> fp = [] then None
         else (case exponent r3 of
                 None \<Rightarrow> None
               | Some e \<Rightarrow>
                   (let m = scale10 (of_int (digits_val (ip @ fp)) / 10 ^ length fp) e
                    in Some (if neg then - m else m))))"

text \<open>
  \<^verbatim>\<open>pd.to_numeric(s, errors='coerce')\<close> on a text: a decimal literal, or one of the
  words for infinity in any letter case; everything else, the words for NaN included, is
  NaN, which is \<open>None\<close> here.
\<close>

definition to_numeric_str :: "string \<Rightarrow> num option" where
  "to_numeric_str s =
     (case xstrtod s of
        Some q \<Rightarrow> Some (Fin q)
      | None \<Rightarrow>
          (let w = lower s
           in if w \<in> set [''inf'', ''+inf'', ''infinity'', ''+infinity''] then Some PInf
              else if w \<in> set [''-inf'', ''-infinity''] then Some NInf
              else None))"

text \<open>Rounding to the nearest integer, ties to even.\<close>

definition round_half_even :: "rat \<Rightarrow> int" where
  "round_half_even q =
     (let f = \<lfloor>q\<rfloor>; d = q - of_int f
      in if d < 1 / 2 then f else if 1 / 2 < d then f + 1 else if even f then f else f + 1)"

text \<open>The format \<^verbatim>\<open>f"{x:.2f}"\<close>.\<close>

fun format2 :: "num \<Rightarrow> string" where
  "format2 (Fin q) =
     (let n = round_half_even (\<bar>q\<bar> * 100)
      in (if q < 0 then ''-'' else '''') @ show_int (n div 100) @ ''.''
         @ [digit_char (n mod 100 div 10), digit_char (n mod 10)])"
| "format2 PInf = ''inf''"
| "format2 NInf = ''-inf''"

text \<open>\<^verbatim>\<open>round(x, 2)\<close>.\<close>

fun round2 :: "num \<Rightarrow> num" where
  "round2 (Fin q) = Fin (of_int (round_half_even (q * 100)) / 100)"
| "round2 PInf = PInf"
| "round2 NInf = NInf"

subsection \<open>Header mapping\<close>

datatype col = MD | INC | AZ

text \<open>The dictionary \<^verbatim>\<open>COL_MAP\<close>, in its insertion order.\<close>

definition COL_MAP :: "(col \<times> string list) list" where
  "COL_MAP =
     [(MD, [''md'', ''measured depth'', ''survey depth'', ''sd'', ''survey'']),
      (INC, [''inc'', ''inclination'']),
      (AZ, [''az'', ''azi'', ''azimuth'', ''azm''])]"

datatype cell = Blank | Num num | Txt string

text \<open>
  The inner loop of \<^verbatim>\<open>standardize_headers\<close>: the first key whose aliases hold the
  text, or \<open>None\<close> (the \<^verbatim>\<open>else\<close> of the \<^verbatim>\<open>for\<close>).
\<close>

fun lookup_alias :: "(col \<times> string list) list \<Rightarrow> string \<Rightarrow> col option" where
  "lookup_alias [] h = None"
| "lookup_alias ((std_key, aliases) # m) h =
     (if h \<in> set aliases then Some std_key else lookup_alias m h)"

text \<open>
  \<^verbatim>\<open>str(h).lower().strip()\<close> looked up in the aliases. The \<^verbatim>\<open>str\<close> of a blank
  cell is \<^verbatim>\<open>nan\<close> and that of a number is a numeral: neither is an alias, so such a
  header resolves to \<open>None\<close>.
\<close>

fun standardize_header :: "cell \<Rightarrow> col option" where
  "standardize_header (Txt s) = lookup_alias COL_MAP (strip (lower s))"
| "standardize_header Blank = None"
| "standardize_header (Num x) = None"

definition standardize_headers :: "cell list \<Rightarrow> col option list" where
  "standardize_headers headers = map standardize_header headers"

subsection \<open>The decoded sheet\<close>

type_synonym grid = "cell list list"

datatype error =
    IndexError            \<comment> \<open>raised by \<^verbatim>\<open>df.iloc\<close> out of bounds\<close>
  | KeyError              \<comment> \<open>raised by \<^verbatim>\<open>data_df[['MD', 'INC', 'AZ']]\<close>, a label missing\<close>
  | ColumnsMismatch       \<comment> \<open>ValueError of pandas: as many columns as labels, as many values as keys\<close>
  | UnknownHeader         \<comment> \<open>ValueError "Unknown header detected ..."\<close>
  | KeywordFailed         \<comment> \<open>ValueError "Keyword-based header detection failed."\<close>
  | FailedAll error       \<comment> \<open>ValueError "Failed all parsing methods: ..." with the last failure\<close>

text \<open>The failures that a layout strategy raises itself, on its header check.\<close>

fun validation_failure :: "error \<Rightarrow> bool" where
  "validation_failure UnknownHeader = True"
| "validation_failure KeywordFailed = True"
| "validation_failure e = False"

fun is_blank :: "cell \<Rightarrow> bool" where
  "is_blank Blank = True"
| "is_blank c = False"

text \<open>\<^verbatim>\<open>dropna(how='all')\<close>: the rows with a cell that is not blank.\<close>

definition dropna_all :: "grid \<Rightarrow> grid" where
  "dropna_all df = filter (\<lambda>row. \<not> list_all is_blank row) df"

text \<open>
  The rows of a frame have one length, its number of columns; a shorter row in the list
  reads as padded with blank cells.
\<close>

definition ncols :: "grid \<Rightarrow> nat" where
  "ncols df = fold (\<lambda>row n. max (length row) n) df 0"

definition cell_at :: "cell list \<Rightarrow> nat \<Rightarrow> cell" where
  "cell_at row j = (if j < length row then row ! j else Blank)"

text \<open>\<^verbatim>\<open>df.iloc[r, cols]\<close> and \<^verbatim>\<open>df.iloc[r:, cols]\<close>.\<close>

definition iloc_row :: "grid \<Rightarrow> nat \<Rightarrow> nat list \<Rightarrow> error + cell list" where
  "iloc_row df r cols =
     (if r < length df \<and> list_all (\<lambda>j. j < ncols df) cols
      then Inr (map (cell_at (df ! r)) cols) else Inl IndexError)"

definition iloc_from :: "grid \<Rightarrow> nat \<Rightarrow> nat list \<Rightarrow> error + grid" where
  "iloc_from df r cols =
     (if list_all (\<lambda>j. j < ncols df) cols
      then Inr (map (\<lambda>row. map (cell_at row) cols) (drop r df)) else Inl IndexError)"

text \<open>\<^verbatim>\<open>pd.to_numeric(..., errors='coerce')\<close> on a cell; \<open>None\<close> is NaN.\<close>

fun to_numeric :: "cell \<Rightarrow> num option" where
  "to_numeric Blank = None"
| "to_numeric (Num x) = Some x"
| "to_numeric (Txt s) = to_numeric_str s"

subsection \<open>Survey tables\<close>

record survey_row =
  md :: string
  inc :: string
  az :: string

type_synonym table = "survey_row list"

text \<open>\<^verbatim>\<open>df.at[i, col]\<close> on a row.\<close>

fun at_col :: "survey_row \<Rightarrow> col \<Rightarrow> string" where
  "at_col r MD = md r"
| "at_col r INC = inc r"
| "at_col r AZ = az r"

text \<open>\<^verbatim>\<open>f"{x:.2f}" if pd.notnull(x) else ""\<close>.\<close>

fun fmt :: "num option \<Rightarrow> string" where
  "fmt (Some x) = format2 x"
| "fmt None = []"

text \<open>The position of the first column with a label.\<close>

fun index_of :: "col option list \<Rightarrow> col \<Rightarrow> nat" where
  "index_of [] c = 0"
| "index_of (h # hs) c = (if h = Some c then 0 else Suc (index_of hs c))"

text \<open>
  The steps every strategy takes once it has its header labels and its data region:

  \<^verbatim>\<open>data_df = df.iloc[start:, cols].dropna(how='all')\<close>

  \<^verbatim>\<open>data_df.columns = std_headers\<close>

  \<^verbatim>\<open>data_df[['MD', 'INC', 'AZ']] = data_df[['MD', 'INC', 'AZ']].apply(pd.to_numeric, errors='coerce')\<close>

  \<^verbatim>\<open>data_df = data_df.dropna(subset=['MD', 'INC', 'AZ']).reset_index(drop=True)\<close>

  and the formatting of the three columns. The source writes them out three times
  (in \<^verbatim>\<open>try_parse\<close>, in the keyword scan and in the fallback); \<open>ncol\<close> is the number
  of columns of the data region. pandas raises when the labels are not as many as the
  columns, when one of the three labels is missing (KeyError), and when a label that
  occurs twice selects more columns than the three keys.
\<close>

definition post_process :: "col option list \<Rightarrow> nat \<Rightarrow> grid \<Rightarrow> error + table" where
  "post_process std_headers ncol region =
     (let data_df = dropna_all region
      in if length std_headers \<noteq> ncol then Inl ColumnsMismatch
         else if \<not> list_all (\<lambda>c. Some c \<in> set std_headers) [MD, INC, AZ] then Inl KeyError
         else if length (filter (\<lambda>h. h \<in> set [Some MD, Some INC, Some AZ]) std_headers) \<noteq> 3
           then Inl ColumnsMismatch
         else
           (let nums = map (\<lambda>row. map (\<lambda>c. to_numeric (cell_at row (index_of std_headers c)))
                                       [MD, INC, AZ]) data_df;
                kept = filter (\<lambda>vals. None \<notin> set vals) nums
            in Inr (map (\<lambda>vals. \<lparr>md = fmt (vals ! 0), inc = fmt (vals ! 1), az = fmt (vals ! 2)\<rparr>)
                        kept)))"

subsection \<open>The layout strategies and their cascade\<close>

definition try_parse ::
  "grid \<Rightarrow> nat \<Rightarrow> nat list \<Rightarrow> nat \<Rightarrow> nat list \<Rightarrow> error + table" where
  "try_parse df header_row_idx header_cols data_start_row_idx data_cols =
     (case iloc_row df header_row_idx header_cols of
        Inl e \<Rightarrow> Inl e
      | Inr headers \<Rightarrow>
          (let std_headers = standardize_headers headers
           in if None \<in> set std_headers then Inl UnknownHeader
              else (case iloc_from df data_start_row_idx data_cols of
                      Inl e \<Rightarrow> Inl e
                    | Inr region \<Rightarrow> post_process std_headers (length data_cols) region)))"

text \<open>The primary known format, chosen by the survey type.\<close>

definition strategy_A :: "grid \<Rightarrow> string \<Rightarrow> error + table" where
  "strategy_A df survey_type =
     (if survey_type = ''MWD'' then try_parse df 16 [1, 2, 3] 18 [1, 2, 3]
      else try_parse df 54 [0, 1, 2] 56 [0, 1, 2])"

text \<open>
  The keyword scan tests \<^verbatim>\<open>df.iloc[i].astype(str).str.lower()\<close> against the aliases:
  the cell in lower case, not stripped.
\<close>

fun cell_in :: "cell \<Rightarrow> string list \<Rightarrow> bool" where
  "cell_in (Txt s) aliases = (lower s \<in> set aliases)"
| "cell_in Blank aliases = False"
| "cell_in (Num x) aliases = False"

definition matches :: "cell list \<Rightarrow> bool list" where
  "matches row = map (\<lambda>(std_key, aliases). list_ex (\<lambda>cell. cell_in cell aliases) row) COL_MAP"

definition keyword_cols :: "cell list \<Rightarrow> nat list" where
  "keyword_cols row =
     filter (\<lambda>j. list_ex (\<lambda>(std_key, aliases). cell_in (row ! j) aliases) COL_MAP) [0..<length row]"

text \<open>
  The keyword scan. The loop stops at the first row, among the first 100, where every
  key has a matching cell, and returns or raises there; \<open>Inr None\<close> is the loop running
  to its end without such a row.
\<close>

definition strategy_B :: "grid \<Rightarrow> error + table option" where
  "strategy_B df =
     (case find (\<lambda>i. list_all id (matches (df ! i))) [0..<min 100 (length df)] of
        None \<Rightarrow> Inr None
      | Some i \<Rightarrow>
          (let header_row_idx = i;
               data_start_idx = i + 1;
               cols = keyword_cols (df ! i)
           in case iloc_row df header_row_idx cols of
                Inl e \<Rightarrow> Inl e
              | Inr headers \<Rightarrow>
                  (let std_headers = standardize_headers headers
                   in if None \<in> set std_headers \<or> length std_headers \<noteq> 3 then Inl KeywordFailed
                      else (case iloc_from df data_start_idx cols of
                              Inl e \<Rightarrow> Inl e
                            | Inr region \<Rightarrow>
                                (case post_process std_headers (length cols) region of
                                   Inl e \<Rightarrow> Inl e
                                 | Inr t \<Rightarrow> Inr (Some t))))))"

text \<open>The fallback: header at row 69, data from row 71, or 72 when row 71 is not numeric.\<close>

definition strategy_C :: "grid \<Rightarrow> error + table" where
  "strategy_C df =
     (case iloc_row df 69 [0, 1, 2] of
        Inl e \<Rightarrow> Inl e
      | Inr headers \<Rightarrow>
          (let std_headers = standardize_headers headers
           in if None \<in> set std_headers then Inl UnknownHeader
              else (case iloc_row df 71 [0, 1, 2] of
                      Inl e \<Rightarrow> Inl e
                    | Inr sample \<Rightarrow>
                        (let first_data_row =
                               (if list_all (\<lambda>c. to_numeric c \<noteq> None) sample then 71 else 72)
                         in case iloc_from df first_data_row [0, 1, 2] of
                              Inl e \<Rightarrow> Inl e
                            | Inr region \<Rightarrow> post_process std_headers 3 region))))"

text \<open>
  \<^verbatim>\<open>parse_survey_file\<close>, from the decoded sheet on: blank rows are removed, then the
  strategies are tried in order, each inside \<^verbatim>\<open>try: ... except Exception: pass\<close>;
  the failure of the last one is raised again as "Failed all parsing methods".
\<close>

definition parse_survey_file :: "grid \<Rightarrow> string \<Rightarrow> error + table" where
  "parse_survey_file decoded survey_type =
     (let df = dropna_all decoded
      in case strategy_A df survey_type of
           Inr t \<Rightarrow> Inr t
         | Inl e1 \<Rightarrow>
             (case strategy_B df of
                Inr (Some t) \<Rightarrow> Inr t
              | Inr None \<Rightarrow>
                  (case strategy_C df of Inr t \<Rightarrow> Inr t | Inl e3 \<Rightarrow> Inl (FailedAll e3))
              | Inl e2 \<Rightarrow>
                  (case strategy_C df of Inr t \<Rightarrow> Inr t | Inl e3 \<Rightarrow> Inl (FailedAll e3))))"

subsection \<open>The comparison of \<^verbatim>\<open>update_tables\<close>\<close>

text \<open>
  The rows of the mismatch table, and what the loop accumulates: the dictionary
  \<^verbatim>\<open>mismatches\<close> (its three column keys, and its key \<^verbatim>\<open>rows\<close>), the highlight
  directives of the two source tables (row index and column) and the mismatch rows.
  The highlight directives of the mismatch table and the two export texts are built from
  the same rows and are left out.
\<close>

record mismatch_row =
  Index :: nat
  MWD_MD :: string
  MWD_INC :: string
  MWD_AZ :: string
  DD_MD :: string
  DD_INC :: string
  DD_AZ :: string

record tally =
  mismatches :: "col \<Rightarrow> nat"
  mismatches_rows :: nat
  style_cond_mwd :: "(nat \<times> col) list"
  style_cond_dd :: "(nat \<times> col) list"
  mismatch_rows :: "mismatch_row list"

definition tally0 :: tally where
  "tally0 = \<lparr>mismatches = (\<lambda>c. 0), mismatches_rows = 0, style_cond_mwd = [],
             style_cond_dd = [], mismatch_rows = []\<rparr>"

text \<open>
  The test of one field: both formatted values are parsed again, and
  \<^verbatim>\<open>pd.isna(val_left) or pd.isna(val_right) or round(val_left, 2) != round(val_right, 2)\<close>.
\<close>

definition field_mismatch :: "string \<Rightarrow> string \<Rightarrow> bool" where
  "field_mismatch l r =
     (case to_numeric_str l of
        None \<Rightarrow> True
      | Some val_left \<Rightarrow>
          (case to_numeric_str r of
             None \<Rightarrow> True
           | Some val_right \<Rightarrow> round2 val_left \<noteq> round2 val_right))"

text \<open>The body of the inner loop over the three columns, on the tally and \<^verbatim>\<open>row_mismatch\<close>.\<close>

definition check_col ::
  "table \<Rightarrow> table \<Rightarrow> nat \<Rightarrow> tally \<times> bool \<Rightarrow> col \<Rightarrow> tally \<times> bool" where
  "check_col mwd_df dd_df i acc c =
     (let (st, row_mismatch) = acc
      in if field_mismatch (at_col (mwd_df ! i) c) (at_col (dd_df ! i) c)
         then (st\<lparr>mismatches := (mismatches st)(c := mismatches st c + 1),
                  style_cond_mwd := style_cond_mwd st @ [(i, c)],
                  style_cond_dd := style_cond_dd st @ [(i, c)]\<rparr>, True)
         else (st, row_mismatch))"

text \<open>The body of the loop over the row indices.\<close>

definition compare_row :: "table \<Rightarrow> table \<Rightarrow> tally \<Rightarrow> nat \<Rightarrow> tally" where
  "compare_row mwd_df dd_df st i =
     (let (st1, row_mismatch) = foldl (check_col mwd_df dd_df i) (st, False) [MD, INC, AZ]
      in if row_mismatch
         then st1\<lparr>mismatches_rows := mismatches_rows st1 + 1,
                  mismatch_rows := mismatch_rows st1 @
                    [\<lparr>Index = i + 1,
                      MWD_MD = at_col (mwd_df ! i) MD, MWD_INC = at_col (mwd_df ! i) INC,
                      MWD_AZ = at_col (mwd_df ! i) AZ,
                      DD_MD = at_col (dd_df ! i) MD, DD_INC = at_col (dd_df ! i) INC,
                      DD_AZ = at_col (dd_df ! i) AZ\<rparr>]\<rparr>
         else st1)"

record comparison =
  min_len :: nat
  result :: tally
  accuracy :: rat

text \<open>
  \<^verbatim>\<open>update_tables\<close> once both files are parsed: the loop over
  \<^verbatim>\<open>range(min_len)\<close> and the accuracy
  \<^verbatim>\<open>100 - (mismatches['rows'] / min_len * 100) if min_len > 0 else 0\<close>,
  in exact arithmetic.
\<close>

definition compare_tables :: "table \<Rightarrow> table \<Rightarrow> comparison" where
  "compare_tables mwd_df dd_df =
     (let n = min (length mwd_df) (length dd_df);
          st = foldl (compare_row mwd_df dd_df) tally0 [0..<n]
      in \<lparr>min_len = n, result = st,
          accuracy = (if n > 0 then 100 - (of_nat (mismatches_rows st) / of_nat n * 100) else 0)\<rparr>)"

text \<open>
  \<^verbatim>\<open>update_tables\<close> from the two decoded sheets: a failure of either parse is the
  error message, otherwise the comparison.
\<close>

definition update_tables :: "grid \<Rightarrow> grid \<Rightarrow> error + comparison" where
  "update_tables mwd_decoded dd_decoded =
     (case parse_survey_file mwd_decoded ''MWD'' of
        Inl e \<Rightarrow> Inl e
      | Inr mwd_df \<Rightarrow>
          (case parse_survey_file dd_decoded ''DD'' of
             Inl e \<Rightarrow> Inl e
           | Inr dd_df \<Rightarrow> Inr (compare_tables mwd_df dd_df)))"

subsection \<open>What the comparison computes, row by row\<close>

text \<open>
  The test of one column at one row index, of a row, and the mismatch row the loop appends.
\<close>

definition col_mismatch :: "table \<Rightarrow> table \<Rightarrow> nat \<Rightarrow> col \<Rightarrow> bool" where
  "col_mismatch mwd_df dd_df i c = field_mismatch (at_col (mwd_df ! i) c) (at_col (dd_df ! i) c)"

definition row_mismatch_at :: "table \<Rightarrow> table \<Rightarrow> nat \<Rightarrow> bool" where
  "row_mismatch_at mwd_df dd_df i = list_ex (col_mismatch mwd_df dd_df i) [MD, INC, AZ]"

definition mismatch_row_at :: "table \<Rightarrow> table \<Rightarrow> nat \<Rightarrow> mismatch_row" where
  "mismatch_row_at mwd_df dd_df i =
     \<lparr>Index = i + 1,
      MWD_MD = at_col (mwd_df ! i) MD, MWD_INC = at_col (mwd_df ! i) INC,
      MWD_AZ = at_col (mwd_df ! i) AZ,
      DD_MD = at_col (dd_df ! i) MD, DD_INC = at_col (dd_df ! i) INC,
      DD_AZ = at_col (dd_df ! i) AZ\<rparr>"


text \<open>A mismatch row with its two sides exchanged.\<close>

definition swap_sides :: "mismatch_row \<Rightarrow> mismatch_row" where
  "swap_sides r =
     \<lparr>Index = Index r,
      MWD_MD = DD_MD r, MWD_INC = DD_INC r, MWD_AZ = DD_AZ r,
      DD_MD = MWD_MD r, DD_INC = MWD_INC r, DD_AZ = MWD_AZ r\<rparr>"



section \<open>Properties\<close>

subsection \<open>The comparison loop\<close>

lemma field_mismatch_sym: "field_mismatch l r = field_mismatch r l"
  by (auto simp: field_mismatch_def split: option.splits)

lemma compare_row_mismatches:
  "mismatches (compare_row a b st i) c =
     mismatches st c + (if col_mismatch a b i c then 1 else 0)"
  by (cases c) (simp_all add: compare_row_def check_col_def col_mismatch_def)

lemma compare_row_rows:
  "mismatches_rows (compare_row a b st i) =
     mismatches_rows st + (if row_mismatch_at a b i then 1 else 0)"
  by (simp add: compare_row_def check_col_def col_mismatch_def row_mismatch_at_def)

lemma compare_row_mismatch_rows:
  "mismatch_rows (compare_row a b st i) =
     mismatch_rows st @ (if row_mismatch_at a b i then [mismatch_row_at a b i] else [])"
  by (simp add: compare_row_def check_col_def col_mismatch_def row_mismatch_at_def mismatch_row_at_def)

lemma compare_row_style_mwd:
  "style_cond_mwd (compare_row a b st i) =
     style_cond_mwd st @ map (Pair i) (filter (col_mismatch a b i) [MD, INC, AZ])"
  by (simp add: compare_row_def check_col_def col_mismatch_def)

lemma compare_row_style_dd:
  "style_cond_dd (compare_row a b st i) =
     style_cond_dd st @ map (Pair i) (filter (col_mismatch a b i) [MD, INC, AZ])"
  by (simp add: compare_row_def check_col_def col_mismatch_def)

lemma loop_mismatches:
  "mismatches (foldl (compare_row a b) st [0..<n]) c =
     mismatches st c + length (filter (\<lambda>i. col_mismatch a b i c) [0..<n])"
  by (induction n) (simp_all add: compare_row_mismatches)

lemma loop_rows:
  "mismatches_rows (foldl (compare_row a b) st [0..<n]) =
     mismatches_rows st + length (filter (row_mismatch_at a b) [0..<n])"
  by (induction n) (simp_all add: compare_row_rows)

lemma loop_mismatch_rows:
  "mismatch_rows (foldl (compare_row a b) st [0..<n]) =
     mismatch_rows st @ map (mismatch_row_at a b) (filter (row_mismatch_at a b) [0..<n])"
  by (induction n) (simp_all add: compare_row_mismatch_rows)

lemma loop_style_mwd:
  "style_cond_mwd (foldl (compare_row a b) st [0..<n]) =
     style_cond_mwd st @
     concat (map (\<lambda>i. map (Pair i) (filter (col_mismatch a b i) [MD, INC, AZ])) [0..<n])"
  by (induction n) (simp_all add: compare_row_style_mwd)

lemma loop_style_dd:
  "style_cond_dd (foldl (compare_row a b) st [0..<n]) =
     style_cond_dd st @
     concat (map (\<lambda>i. map (Pair i) (filter (col_mismatch a b i) [MD, INC, AZ])) [0..<n])"
  by (induction n) (simp_all add: compare_row_style_dd)


lemma min_len_compare: "min_len (compare_tables a b) = min (length a) (length b)"
  by (simp add: compare_tables_def Let_def)

lemma result_compare:
  "result (compare_tables a b) = foldl (compare_row a b) tally0 [0..<min (length a) (length b)]"
  by (simp add: compare_tables_def Let_def)

lemma accuracy_compare:
  "accuracy (compare_tables a b) =
     (if 0 < min (length a) (length b)
      then 100 - (of_nat (mismatches_rows (result (compare_tables a b)))
                    / of_nat (min (length a) (length b)) * 100)
      else 0)"
  by (simp add: compare_tables_def Let_def)

lemma mismatches_compare:
  "mismatches (result (compare_tables a b)) c =
     length (filter (\<lambda>i. col_mismatch a b i c) [0..<min (length a) (length b)])"
  by (simp add: result_compare loop_mismatches tally0_def)

lemma rows_compare:
  "mismatches_rows (result (compare_tables a b)) =
     length (filter (row_mismatch_at a b) [0..<min (length a) (length b)])"
  by (simp add: result_compare loop_rows tally0_def)

lemma mismatch_rows_compare:
  "mismatch_rows (result (compare_tables a b)) =
     map (mismatch_row_at a b) (filter (row_mismatch_at a b) [0..<min (length a) (length b)])"
  by (simp add: result_compare loop_mismatch_rows tally0_def)

lemma style_mwd_compare:
  "style_cond_mwd (result (compare_tables a b)) =
     concat (map (\<lambda>i. map (Pair i) (filter (col_mismatch a b i) [MD, INC, AZ]))
                 [0..<min (length a) (length b)])"
  by (simp add: result_compare loop_style_mwd tally0_def)

lemma style_dd_compare:
  "style_cond_dd (result (compare_tables a b)) =
     concat (map (\<lambda>i. map (Pair i) (filter (col_mismatch a b i) [MD, INC, AZ]))
                 [0..<min (length a) (length b)])"
  by (simp add: result_compare loop_style_dd tally0_def)


lemma rows_le: "mismatches_rows (result (compare_tables a b)) \<le> min (length a) (length b)"
proof -
  have "length (filter (row_mismatch_at a b) [0..<min (length a) (length b)])
          \<le> length [0..<min (length a) (length b)]"
    by (rule length_filter_le)
  then show ?thesis by (simp add: rows_compare)
qed





text \<open>
  Claim C10. Every column counter and the row counter are at most \<open>min_len\<close>, and the
  accuracy lies between 0 and 100.
\<close>

theorem counters_bounded:
  "mismatches (result (compare_tables a b)) c \<le> min_len (compare_tables a b)
   \<and> mismatches_rows (result (compare_tables a b)) \<le> min_len (compare_tables a b)
   \<and> 0 \<le> accuracy (compare_tables a b) \<and> accuracy (compare_tables a b) \<le> 100"
proof -
  let ?n = "min (length a) (length b)"
  let ?r = "mismatches_rows (result (compare_tables a b))"
  have c: "mismatches (result (compare_tables a b)) c \<le> ?n"
    using length_filter_le [of "\<lambda>i. col_mismatch a b i c" "[0..<?n]"]
    by (simp add: mismatches_compare)
  have r: "?r \<le> ?n" by (rule rows_le)
  have acc: "0 \<le> accuracy (compare_tables a b) \<and> accuracy (compare_tables a b) \<le> 100"
  proof (cases "0 < ?n")
    case True
    define x :: rat where "x = of_nat ?r / of_nat ?n"
    have pos: "(0::rat) < of_nat ?n" using True by simp
    have "(of_nat ?r :: rat) \<le> of_nat ?n" using r by (simp only: of_nat_le_iff)
    then have le1: "x \<le> 1" unfolding x_def using pos by (simp only: divide_le_eq_1_pos)
    have ge0: "0 \<le> x" unfolding x_def by simp
    have "accuracy (compare_tables a b) = 100 - x * 100"
      unfolding x_def using True by (simp only: accuracy_compare if_True)
    with le1 ge0 show ?thesis by simp
  next
    case False
    then have "accuracy (compare_tables a b) = 0" by (simp only: accuracy_compare if_False)
    then show ?thesis by simp
  qed
  from c r acc show ?thesis by (simp add: min_len_compare)
qed







lemma col_mismatch_sym: "col_mismatch b a i c = col_mismatch a b i c"
  by (simp add: col_mismatch_def field_mismatch_sym)

lemma row_mismatch_at_sym: "row_mismatch_at b a i = row_mismatch_at a b i"
  by (simp add: row_mismatch_at_def col_mismatch_sym)

lemma mismatch_row_at_swap: "mismatch_row_at b a i = swap_sides (mismatch_row_at a b i)"
  by (simp add: mismatch_row_at_def swap_sides_def)

text \<open>
  Claim C7. Exchanging the two tables leaves the column counters, the row counter, the
  number of compared rows and the accuracy unchanged; the mismatch rows are the same rows
  with their two sides exchanged.
\<close>

theorem swap_symmetry:
  "mismatches (result (compare_tables b a)) = mismatches (result (compare_tables a b))
   \<and> mismatches_rows (result (compare_tables b a)) = mismatches_rows (result (compare_tables a b))
   \<and> min_len (compare_tables b a) = min_len (compare_tables a b)
   \<and> accuracy (compare_tables b a) = accuracy (compare_tables a b)
   \<and> mismatch_rows (result (compare_tables b a))
       = map swap_sides (mismatch_rows (result (compare_tables a b)))
   \<and> style_cond_mwd (result (compare_tables b a)) = style_cond_dd (result (compare_tables a b))
   \<and> style_cond_dd (result (compare_tables b a)) = style_cond_mwd (result (compare_tables a b))"
proof -
  have m: "min (length b) (length a) = min (length a) (length b)" by (rule min.commute)
  have cm: "col_mismatch b a = col_mismatch a b"
    by (rule ext, rule ext) (rule col_mismatch_sym)
  have rm: "row_mismatch_at b a = row_mismatch_at a b"
    by (rule ext) (rule row_mismatch_at_sym)
  have mr: "mismatch_row_at b a = (\<lambda>i. swap_sides (mismatch_row_at a b i))"
    by (rule ext) (rule mismatch_row_at_swap)
  have c: "mismatches (result (compare_tables b a)) = mismatches (result (compare_tables a b))"
    by (rule ext) (simp only: mismatches_compare cm m)
  have r: "mismatches_rows (result (compare_tables b a))
             = mismatches_rows (result (compare_tables a b))"
    by (simp only: rows_compare rm m)
  have l: "min_len (compare_tables b a) = min_len (compare_tables a b)"
    by (simp only: min_len_compare m)
  have acc: "accuracy (compare_tables b a) = accuracy (compare_tables a b)"
    by (simp only: accuracy_compare r m)
  have rows: "mismatch_rows (result (compare_tables b a))
                = map swap_sides (mismatch_rows (result (compare_tables a b)))"
    by (simp only: mismatch_rows_compare rm m mr map_map comp_def)
  have s1: "style_cond_mwd (result (compare_tables b a)) = style_cond_dd (result (compare_tables a b))"
    by (simp only: style_mwd_compare style_dd_compare cm m)
  have s2: "style_cond_dd (result (compare_tables b a)) = style_cond_mwd (result (compare_tables a b))"
    by (simp only: style_mwd_compare style_dd_compare cm m)
  from c r l acc rows s1 s2 show ?thesis by (intro conjI)
qed

end
